theory Spec2Isabelle
  imports Complex_Main "HOL-Library.Multiset"
begin

section \<open>Data model\<close>

text \<open>
  The enums of the storage schema.  \<open>PENDING\<close> names a message status and a
  conversation status in the schema; the conversation one is \<open>CONV_PENDING\<close> here.
\<close>

datatype MessageType =
  TEXT | IMAGE | VIDEO | AUDIO | DOCUMENT | STICKER | LOCATION | CONTACT | REACTION

datatype MessageStatus = PENDING | SENT | DELIVERED | READ | FAILED

datatype ConversationStatus = OPEN | CONV_PENDING | RESOLVED | SPAM

datatype InstanceStatus = DISCONNECTED | CONNECTING | CONNECTED | QRCODE

text \<open>
  Rows of the tables \<open>instances\<close>, \<open>contacts\<close>, \<open>conversations\<close> and
  \<open>messages\<close>, with the columns the webhook controller and \<open>markAsRead\<close> read or
  write.  Row ids are generated strings in the schema; they are natural numbers here,
  drawn from a counter of the store.  Timestamps are milliseconds.
\<close>

record Instance =
  i_id :: nat
  i_name :: string
  i_apiKey :: "string option"
  i_status :: InstanceStatus
  i_qrCode :: "string option"

record Contact =
  ct_id :: nat
  ct_instanceId :: nat
  ct_remoteJid :: string
  ct_pushName :: "string option"
  ct_phoneNumber :: "string option"
  ct_isGroup :: bool

record Conversation =
  cv_id :: nat
  cv_instanceId :: nat
  cv_contactId :: nat
  cv_status :: ConversationStatus
  cv_unreadCount :: int
  cv_lastMessage :: "string option"
  cv_lastMessageAt :: "int option"

record Message =
  m_id :: nat
  m_messageId :: string
  m_content :: "string option"
  m_type :: MessageType
  m_status :: MessageStatus
  m_isFromMe :: bool
  m_timestamp :: int
  m_mediaUrl :: "string option"
  m_mediaMimeType :: "string option"
  m_mediaFileName :: "string option"
  m_quotedMessageId :: "string option"
  m_instanceId :: nat
  m_contactId :: nat
  m_conversationId :: nat

section \<open>Webhook payloads\<close>

text \<open>
  The shapes of \<open>MessageUpsertData\<close>.  An optional property is an \<open>option\<close>;
  \<open>None\<close> is the property being absent.
\<close>

record MessageKey =
  remoteJid :: "string option"
  fromMe :: bool
  key_id :: string

record ExtendedTextMessage =
  ext_text :: "string option"
  ext_stanzaId :: "string option"

record CaptionedMedia =
  cm_url :: "string option"
  cm_mimetype :: "string option"
  cm_caption :: "string option"

record PlainMedia =
  pm_url :: "string option"
  pm_mimetype :: "string option"

record DocumentMessage =
  doc_url :: "string option"
  doc_mimetype :: "string option"
  doc_title :: "string option"
  doc_fileName :: "string option"

record LocationMessage =
  degreesLatitude :: real
  degreesLongitude :: real
  loc_name :: "string option"
  loc_address :: "string option"

record ContactMessage =
  displayName :: string
  vcard :: string

record MessageBody =
  conversation :: "string option"
  extendedTextMessage :: "ExtendedTextMessage option"
  imageMessage :: "CaptionedMedia option"
  videoMessage :: "CaptionedMedia option"
  audioMessage :: "PlainMedia option"
  documentMessage :: "DocumentMessage option"
  stickerMessage :: "PlainMedia option"
  locationMessage :: "LocationMessage option"
  contactMessage :: "ContactMessage option"
  reactionMessage :: "string option"

text \<open>
  One element of a webhook's \<open>data\<close>.  \<open>data\<close> is untyped in the source and each
  handler reads the properties it needs, so one record carries the properties read by
  any handler: \<open>key\<close>, \<open>pushName\<close>, \<open>message\<close>, \<open>messageTimestamp\<close> (upsert),
  \<open>update.status\<close> (update), \<open>state\<close> (connection update) and
  \<open>qrcode.base64\<close> (QR update).
\<close>

record MessageUpsertData =
  key :: "MessageKey option"
  pushName :: "string option"
  message :: "MessageBody option"
  messageTimestamp :: "int option"
  update_status :: "int option"
  state :: "string option"
  qrcode_base64 :: "string option"

text \<open>The objects handed to \<open>JSON.stringify\<close>; the serialiser itself is a parameter.\<close>

datatype json_object =
  LocationJson real real "string option" "string option"
| ContactJson string string

type_synonym stringify = "json_object \<Rightarrow> string"

section \<open>Message normalizer\<close>

text \<open>JavaScript truthiness of an optional string: present and not empty.\<close>

definition truthy :: "string option \<Rightarrow> bool" where
  "truthy v = (case v of None \<Rightarrow> False | Some s \<Rightarrow> s \<noteq> [])"

text \<open>\<open>a || b\<close> on optional strings, and \<open>a || null\<close>.\<close>

definition or_else :: "string option \<Rightarrow> string option \<Rightarrow> string option" where
  "or_else a b = (if truthy a then a else b)"

record ParsedContent =
  pc_content :: "string option"
  pc_type :: MessageType
  pc_mediaUrl :: "string option"
  pc_mediaMimeType :: "string option"
  pc_mediaFileName :: "string option"

definition parsed :: "string option \<Rightarrow> MessageType \<Rightarrow> string option \<Rightarrow> string option
    \<Rightarrow> string option \<Rightarrow> ParsedContent" where
  "parsed c t u m f =
     \<lparr>pc_content = c, pc_type = t, pc_mediaUrl = u, pc_mediaMimeType = m, pc_mediaFileName = f\<rparr>"

definition getMessageContent :: "stringify \<Rightarrow> MessageUpsertData \<Rightarrow> ParsedContent" where
  "getMessageContent js messageData =
     (case message messageData of
        None \<Rightarrow> parsed None TEXT None None None
      | Some msg \<Rightarrow>
          if truthy (conversation msg) then parsed (conversation msg) TEXT None None None
          else if (case extendedTextMessage msg of None \<Rightarrow> False | Some e \<Rightarrow> truthy (ext_text e))
          then parsed (ext_text (the (extendedTextMessage msg))) TEXT None None None
          else (case imageMessage msg of
            Some img \<Rightarrow> parsed (or_else (cm_caption img) None) IMAGE (cm_url img) (cm_mimetype img) None
          | None \<Rightarrow>
          (case videoMessage msg of
            Some vid \<Rightarrow> parsed (or_else (cm_caption vid) None) VIDEO (cm_url vid) (cm_mimetype vid) None
          | None \<Rightarrow>
          (case audioMessage msg of
            Some aud \<Rightarrow> parsed None AUDIO (pm_url aud) (pm_mimetype aud) None
          | None \<Rightarrow>
          (case documentMessage msg of
            Some d \<Rightarrow> parsed None DOCUMENT (doc_url d) (doc_mimetype d)
                        (or_else (doc_fileName d) (doc_title d))
          | None \<Rightarrow>
          (case stickerMessage msg of
            Some st \<Rightarrow> parsed None STICKER (pm_url st) (pm_mimetype st) None
          | None \<Rightarrow>
          (case locationMessage msg of
            Some loc \<Rightarrow> parsed (Some (js (LocationJson (degreesLatitude loc) (degreesLongitude loc)
                                    (loc_name loc) (loc_address loc)))) LOCATION None None None
          | None \<Rightarrow>
          (case contactMessage msg of
            Some c \<Rightarrow> parsed (Some (js (ContactJson (displayName c) (vcard c)))) CONTACT None None None
          | None \<Rightarrow>
          (case reactionMessage msg of
            Some r \<Rightarrow> parsed (Some r) REACTION None None None
          | None \<Rightarrow> parsed None TEXT None None None)))))))))"

text \<open>
  The placeholders \<open>[v\<dots>deo]\<close>, \<open>[\<dots>udio]\<close> and \<open>[localiza\<dots>o]\<close> hold accented
  letters; they are written as their UTF-8 bytes.
\<close>

definition getLastMessagePreview :: "MessageType \<Rightarrow> string option \<Rightarrow> string" where
  "getLastMessagePreview t content =
     (case t of
        TEXT \<Rightarrow> (if truthy content then the content else [])
      | IMAGE \<Rightarrow> (if truthy content then ''[imagem] '' @ the content else ''[imagem]'')
      | VIDEO \<Rightarrow> (if truthy content then (''[v'' @ [CHR 0xC3, CHR 0xAD] @ ''deo] '') @ the content else (''[v'' @ [CHR 0xC3, CHR 0xAD] @ ''deo]''))
      | AUDIO \<Rightarrow> (''['' @ [CHR 0xC3, CHR 0xA1] @ ''udio]'')
      | DOCUMENT \<Rightarrow> ''[documento]''
      | STICKER \<Rightarrow> ''[figurinha]''
      | LOCATION \<Rightarrow> (''[localiza'' @ [CHR 0xC3, CHR 0xA7, CHR 0xC3, CHR 0xA3] @ ''o]'')
      | CONTACT \<Rightarrow> ''[contato]''
      | REACTION \<Rightarrow> (if truthy content then the content else []))"

section \<open>Store, socket server and errors\<close>


datatype payload =
  MessagePayload Message
| NotificationPayload Message Contact nat
| ConversationPayload Conversation
| MessageUpdatePayload nat MessageStatus
| InstanceStatusPayload nat string InstanceStatus
| InstanceQrcodePayload nat string string

text \<open>
  An emission: the room (\<open>Some c\<close> is \<open>conversation:c\<close>, \<open>None\<close> is the global
  broadcast), the event name and what is sent.
\<close>

record emission =
  e_room :: "nat option"
  e_event :: string
  e_payload :: payload

record ReadReceipt =
  rr_remoteJid :: string
  rr_fromMe :: bool
  rr_id :: string

record gateway_call =
  gc_instanceName :: string
  gc_messages :: "ReadReceipt list"
  gc_apiKey :: "string option"
  gc_succeeded :: bool

record world =
  instances :: "Instance list"
  contacts :: "Contact list"
  conversations :: "Conversation list"
  messages :: "Message list"
  next_id :: nat
  db_up :: bool
  io :: bool
  emitted :: "emission list"
  clock :: int
  gateway_up :: bool
  gateway_calls :: "gateway_call list"

definition emit :: "nat option \<Rightarrow> string \<Rightarrow> payload \<Rightarrow> world \<Rightarrow> world" where
  "emit r ev p w = w\<lparr>emitted := emitted w @ [\<lparr>e_room = r, e_event = ev, e_payload = p\<rparr>]\<rparr>"

text \<open>The lookups by unique key (\<open>findUnique\<close>).\<close>

definition find_instance :: "world \<Rightarrow> string \<Rightarrow> Instance option" where
  "find_instance w name = find (\<lambda>i. i_name i = name) (instances w)"




section \<open>String helpers\<close>





section \<open>Message upsert handler\<close>



text \<open>Lines 255 to 265: the aggregate update applied to the conversation row.\<close>

definition updateData :: "Conversation \<Rightarrow> bool \<Rightarrow> string \<Rightarrow> int \<Rightarrow> Conversation \<Rightarrow> Conversation" where
  "updateData conv from_me lastMessage ts r =
     r\<lparr>cv_lastMessage := Some lastMessage,
       cv_lastMessageAt := Some ts,
       cv_unreadCount := (if \<not> from_me then cv_unreadCount r + 1 else cv_unreadCount r),
       cv_status := (if \<not> from_me \<and> cv_status conv = RESOLVED then OPEN else cv_status r)\<rparr>"

text \<open>Lines 216 to 293: normalize, insert the message, update the conversation, fan out.\<close>

definition persist_message :: "stringify \<Rightarrow> world \<Rightarrow> Instance \<Rightarrow> Contact \<Rightarrow> Conversation
    \<Rightarrow> MessageKey \<Rightarrow> MessageUpsertData \<Rightarrow> world" where
  "persist_message js w inst contact conv k messageData =
     (let pc = getMessageContent js messageData;
          quotedMessageId =
            (case message messageData of
               None \<Rightarrow> None
             | Some b \<Rightarrow> (case extendedTextMessage b of
                           None \<Rightarrow> None
                         | Some e \<Rightarrow> if truthy (ext_stanzaId e) then ext_stanzaId e else None));
          ts = (case messageTimestamp messageData of
                  None \<Rightarrow> clock w
                | Some t \<Rightarrow> if t \<noteq> 0 then t * 1000 else clock w);
          msg = \<lparr>m_id = next_id w, m_messageId = key_id k, m_content = pc_content pc,
                 m_type = pc_type pc, m_status = (if fromMe k then SENT else DELIVERED),
                 m_isFromMe = fromMe k, m_timestamp = ts, m_mediaUrl = pc_mediaUrl pc,
                 m_mediaMimeType = pc_mediaMimeType pc, m_mediaFileName = pc_mediaFileName pc,
                 m_quotedMessageId = quotedMessageId, m_instanceId = i_id inst,
                 m_contactId = ct_id contact, m_conversationId = cv_id conv\<rparr>;
          lastMessage = getLastMessagePreview (pc_type pc) (pc_content pc);
          upd = updateData conv (fromMe k) lastMessage ts;
          w1 = w\<lparr>messages := messages w @ [msg], next_id := Suc (next_id w)\<rparr>;
          w2 = w1\<lparr>conversations := map (\<lambda>r. if cv_id r = cv_id conv then upd r else r)
                                         (conversations w1)\<rparr>
      in emit None ''conversation:update'' (ConversationPayload (upd conv))
           (emit None ''message:new'' (NotificationPayload msg contact (cv_id conv))
              (emit (Some (cv_id conv)) ''message:new'' (MessagePayload msg) w2)))"




section \<open>Status reconciler\<close>





section \<open>Connection and QR handlers\<close>





section \<open>Webhook event router\<close>


datatype body = Received | ErrorBody string | MessageBody string




section \<open>Mark as read\<close>




section \<open>Uniqueness constraints of the schema\<close>


section \<open>Items already processed\<close>


section \<open>Sample inputs\<close>

text \<open>
  The scenario of the specification: instance \<open>shop1\<close>, an empty store, and the
  inbound text \<open>Oi\<close> from \<open>5511999@s.whatsapp.net\<close> with external id \<open>MSG1\<close>.
\<close>

definition stringify0 :: stringify where
  "stringify0 j = ''{}''"

definition blank_body :: MessageBody where
  "blank_body = \<lparr>conversation = None, extendedTextMessage = None, imageMessage = None,
     videoMessage = None, audioMessage = None, documentMessage = None, stickerMessage = None,
     locationMessage = None, contactMessage = None, reactionMessage = None\<rparr>"

definition blank_item :: MessageUpsertData where
  "blank_item = \<lparr>key = None, pushName = None, message = None, messageTimestamp = None,
     update_status = None, state = None, qrcode_base64 = None\<rparr>"



definition oi_key :: MessageKey where
  "oi_key = \<lparr>remoteJid = Some ''5511999@s.whatsapp.net'', fromMe = False, key_id = ''MSG1''\<rparr>"


text \<open>A captioned image, alone and together with a plain text.\<close>

definition photo :: CaptionedMedia where
  "photo = \<lparr>cm_url = Some ''https://mmg.whatsapp.net/p.enc'', cm_mimetype = Some ''image/jpeg'',
     cm_caption = Some ''foto''\<rparr>"

definition text_and_image :: MessageUpsertData where
  "text_and_image = blank_item\<lparr>key := Some oi_key,
     message := Some (blank_body\<lparr>conversation := Some ''Oi'', imageMessage := Some photo\<rparr>)\<rparr>"

definition image_only :: MessageUpsertData where
  "image_only = blank_item\<lparr>key := Some oi_key,
     message := Some (blank_body\<lparr>imageMessage := Some photo\<rparr>)\<rparr>"













section \<open>Lemmas about the store operations\<close>

subsection \<open>Lookups in lists\<close>





subsection \<open>Contact resolution\<close>





subsection \<open>Conversation resolution\<close>




subsection \<open>Inserting a message\<close>







lemma find_instance_persist:
  "find_instance (persist_message js w inst contact conv k md) n = find_instance w n"
  by (simp add: persist_message_def Let_def emit_def find_instance_def)


subsection \<open>Lookups depend on their table only\<close>




subsection \<open>The status reconciler\<close>





subsection \<open>A new message into an existing conversation\<close>



subsection \<open>Exceptions of the handlers\<close>














subsection \<open>The unique key of conversations\<close>
















subsection \<open>What a routable item leaves behind\<close>



subsection \<open>Mark as read\<close>





subsection \<open>Consecutive inbound messages\<close>


subsection \<open>Redelivery of a batch\<close>











subsection \<open>One item delivered twice\<close>


section \<open>The claims\<close>



text \<open>
  Claim C2, as the code has it.  With both a non-empty \<open>conversation\<close> text and an
  \<open>imageMessage\<close>, the normalizer answers \<open>TEXT\<close> with the text: plain text and
  extended text are checked before the image.  \<open>IMAGE\<close>, with the caption or null as
  content, is the answer only when neither text is present and non-empty.
\<close>

theorem getMessageContent_text_first:
  assumes "message md = Some b" and "imageMessage b = Some img"
  shows "(truthy (conversation b) \<longrightarrow>
            pc_type (getMessageContent js md) = TEXT
            \<and> pc_content (getMessageContent js md) = conversation b)
       \<and> (\<not> truthy (conversation b) \<and> extendedTextMessage b = Some e \<and> truthy (ext_text e) \<longrightarrow>
            pc_type (getMessageContent js md) = TEXT
            \<and> pc_content (getMessageContent js md) = ext_text e)
       \<and> (\<not> truthy (conversation b)
            \<and> (case extendedTextMessage b of None \<Rightarrow> True | Some e \<Rightarrow> \<not> truthy (ext_text e)) \<longrightarrow>
            pc_type (getMessageContent js md) = IMAGE
            \<and> pc_content (getMessageContent js md) = (if truthy (cm_caption img) then cm_caption img else None))"
  using assms by (auto simp: getMessageContent_def parsed_def or_else_def split: option.splits)

theorem getMessageContent_text_first_witness:
  "message text_and_image = Some (blank_body\<lparr>conversation := Some ''Oi'', imageMessage := Some photo\<rparr>)
   \<and> truthy (Some ''Oi'')
   \<and> pc_type (getMessageContent stringify0 text_and_image) = TEXT
   \<and> pc_content (getMessageContent stringify0 text_and_image) = Some ''Oi''
   \<and> message image_only = Some (blank_body\<lparr>imageMessage := Some photo\<rparr>)
   \<and> pc_type (getMessageContent stringify0 image_only) = IMAGE
   \<and> pc_content (getMessageContent stringify0 image_only) = Some ''foto''"
  using getMessageContent_text_first [of text_and_image
      "blank_body\<lparr>conversation := Some ''Oi'', imageMessage := Some photo\<rparr>" photo stringify0]
    getMessageContent_text_first [of image_only "blank_body\<lparr>imageMessage := Some photo\<rparr>" photo stringify0]
  by (simp add: text_and_image_def image_only_def blank_item_def blank_body_def truthy_def photo_def)

text \<open>
  Claim C2 as stated fails: a payload with the text \<open>Oi\<close> and a captioned image is not
  classified \<open>IMAGE\<close>, and its content is not the caption.
\<close>

theorem text_and_image_counterexample:
  "conversation (the (message text_and_image)) = Some ''Oi''
   \<and> imageMessage (the (message text_and_image)) = Some photo
   \<and> pc_type (getMessageContent stringify0 text_and_image) \<noteq> IMAGE
   \<and> pc_content (getMessageContent stringify0 text_and_image) \<noteq> cm_caption photo"
  by (simp add: text_and_image_def blank_item_def blank_body_def getMessageContent_def parsed_def
      truthy_def photo_def)




















end
